theory Spec2Isabelle
  imports Complex_Main "HOL-Library.AList" "HOL-Library.Sublist"
begin

section \<open>Python values and exceptions\<close>

text \<open>
  A decoded JSON document, as \<open>json.loads\<close> returns it. Numbers are Python ints and
  floats; both are read as reals and the arithmetic on them as exact. An object is the
  decoded \<open>dict\<close>: its items in insertion order, looked up with \<open>map_of\<close>.
\<close>

datatype json =
    JNull
  | JBool bool
  | JNum real
  | JStr string
  | JArr "json list"
  | JObj "(string \<times> json) list"

text \<open>
  An exception object, with the attributes that \<open>print_error\<close> inspects:
  \<open>reason\<close>, \<open>strerror\<close> and \<open>stderr\<close> (\<open>None\<close> here when \<open>hasattr\<close> is false)
  and \<open>args\<close>. An attribute value is a \<open>str\<close>, Python's \<open>None\<close> or some other object.
\<close>

datatype exn_class =
    KeyError | TypeError | IndexError | ValueError | AttributeError
  | ZeroDivisionError | NotImplementedError | OtherError

datatype pyobj = PStr string | PNone | PObject

datatype exn_reason = ReasonStr string | ReasonObj "pyobj option"

record exn =
  ex_cls :: exn_class
  ex_reason :: "exn_reason option"
  ex_strerror :: "pyobj option"
  ex_stderr :: "pyobj option"
  ex_args :: "pyobj list"

text \<open>
  An exception raised by the interpreter or by a \<open>raise\<close> statement of the code: it has
  none of the three attributes, only its constructor arguments.
\<close>

definition raised :: "exn_class \<Rightarrow> pyobj list \<Rightarrow> exn" where
  "raised c as = \<lparr>ex_cls = c, ex_reason = None, ex_strerror = None, ex_stderr = None, ex_args = as\<rparr>"

definition and_then :: "exn + 'a \<Rightarrow> ('a \<Rightarrow> exn + 'b) \<Rightarrow> exn + 'b" where
  "and_then r f = (case r of Inl e \<Rightarrow> Inl e | Inr x \<Rightarrow> f x)"

fun each :: "('a \<Rightarrow> exn + 'b) \<Rightarrow> 'a list \<Rightarrow> exn + 'b list" where
  "each f [] = Inr []"
| "each f (x # xs) =
     (case f x of
        Inl e \<Rightarrow> Inl e
      | Inr y \<Rightarrow> (case each f xs of Inl e \<Rightarrow> Inl e | Inr ys \<Rightarrow> Inr (y # ys)))"

text \<open>Truthiness of a value (\<open>bool(v)\<close>).\<close>

fun truthy :: "json \<Rightarrow> bool" where
  "truthy JNull = False"
| "truthy (JBool b) = b"
| "truthy (JNum x) = (x \<noteq> 0)"
| "truthy (JStr s) = (s \<noteq> [])"
| "truthy (JArr xs) = (xs \<noteq> [])"
| "truthy (JObj d) = (d \<noteq> [])"

text \<open>\<open>v[k]\<close> with a \<open>str\<close> key: only a dict can be subscripted with it.\<close>

fun getitem :: "json \<Rightarrow> string \<Rightarrow> exn + json" where
  "getitem (JObj d) k =
     (case map_of d k of
        None \<Rightarrow> Inl (raised KeyError [PStr k])
      | Some v \<Rightarrow> Inr v)"
| "getitem v k = Inl (raised TypeError [PStr ''indices must be integers or object is not subscriptable''])"

text \<open>\<open>d.get(k)\<close>: the value, or \<open>None\<close> for a missing key.\<close>

definition dict_get :: "(string \<times> json) list \<Rightarrow> string \<Rightarrow> json" where
  "dict_get d k = (case map_of d k of None \<Rightarrow> JNull | Some v \<Rightarrow> v)"

text \<open>
  A value used as a number in \<open>min\<close>, \<open>max\<close>, \<open>sum\<close> and \<open>-\<close>: ints and floats, and
  \<open>bool\<close>, which is a subclass of \<open>int\<close>. With anything else among the values one of
  \<open>min\<close> and \<open>sum\<close> raises \<open>TypeError\<close> (\<open>sum\<close> starts from the int 0).
\<close>

fun number :: "json \<Rightarrow> exn + real" where
  "number (JNum x) = Inr x"
| "number (JBool b) = Inr (if b then 1 else 0)"
| "number v = Inl (raised TypeError [PStr ''unsupported operand type(s)''])"

section \<open>The statistics of the usage checks\<close>

text \<open>
  \<open>check_databases_usage_001\<close> (suite\_databases.py, lines 247 to 260) and
  \<open>check_cpu_usage\<close> (suite\_nodes.py, lines 203 to 216) compute minimum, average,
  maximum and standard deviation of one field of the interval records. The block is the
  same in both but for the field and for the value taken from it (\<open>i['total_req']\<close> in
  the first, \<open>1 - i['cpu_idle']\<close> in the second), which are the parameters here.

  Numbers are read as reals and the arithmetic on them as exact. The rounding of Python's
  float operations (\<open>sum\<close>, \<open>/\<close>, \<open>pow\<close>, \<open>math.sqrt\<close>) and the \<open>OverflowError\<close>
  that \<open>/\<close> and \<open>pow\<close> raise on values too large for a float are not modelled. The
  model gives the result of the code where Python's arithmetic is exact, as on the small
  integers evaluated below, and where no arithmetic is reached, as on an empty sample; it
  says nothing on the float results of other samples.
\<close>

type_synonym interval = "(string \<times> json) list"

record usage =
  minimum :: real
  average :: real
  maximum :: real
  std_dev :: real

text \<open>\<open>filter(lambda i: i.get(field), ints)\<close>\<close>

definition with_field :: "string \<Rightarrow> interval list \<Rightarrow> interval list" where
  "with_field field ints = filter (\<lambda>i. truthy (dict_get i field)) ints"

text \<open>\<open>[g(i[field]) for i in ...]\<close>\<close>

definition field_values :: "(real \<Rightarrow> real) \<Rightarrow> string \<Rightarrow> interval list \<Rightarrow> exn + real list" where
  "field_values g field recs =
     each (\<lambda>i. and_then (getitem (JObj i) field) (\<lambda>v. and_then (number v) (\<lambda>x. Inr (g x)))) recs"

fun py_min :: "real list \<Rightarrow> exn + real" where
  "py_min [] = Inl (raised ValueError [PStr ''min() arg is an empty sequence''])"
| "py_min (x # xs) = Inr (fold min xs x)"

fun py_max :: "real list \<Rightarrow> exn + real" where
  "py_max [] = Inl (raised ValueError [PStr ''max() arg is an empty sequence''])"
| "py_max (x # xs) = Inr (fold max xs x)"

definition py_div :: "real \<Rightarrow> nat \<Rightarrow> exn + real" where
  "py_div a n = (if n = 0 then Inl (raised ZeroDivisionError [PStr ''division by zero'']) else Inr (a / real n))"

definition py_sqrt :: "real \<Rightarrow> exn + real" where
  "py_sqrt a = (if a < 0 then Inl (raised ValueError [PStr ''math domain error'']) else Inr (sqrt a))"

definition min_avg_max_dev :: "(real \<Rightarrow> real) \<Rightarrow> string \<Rightarrow> interval list \<Rightarrow> exn + usage" where
  "min_avg_max_dev g field ints =
     and_then (field_values g field (with_field field ints)) (\<lambda>xs0.
     and_then (py_min xs0) (\<lambda>mn.
     and_then (field_values g field (with_field field ints)) (\<lambda>xs.
     and_then (py_div (sum_list xs) (length xs)) (\<lambda>avg.
     and_then (field_values g field (with_field field ints)) (\<lambda>xs1.
     and_then (py_max xs1) (\<lambda>mx.
     let q_sum = foldl (\<lambda>x y. x + (y - avg) ^ 2) 0 xs in
     and_then (py_div q_sum (length xs)) (\<lambda>var.
     and_then (py_sqrt var) (\<lambda>dev.
     Inr \<lparr>minimum = mn, average = avg, maximum = mx, std_dev = dev\<rparr>))))))))"

definition usage_001_stats :: "interval list \<Rightarrow> exn + usage" where
  "usage_001_stats ints = min_avg_max_dev (\<lambda>x. x) ''total_req'' ints"

definition cpu_usage_stats :: "interval list \<Rightarrow> exn + usage" where
  "cpu_usage_stats ints = min_avg_max_dev (\<lambda>x. 1 - x) ''cpu_idle'' ints"

definition idle_then_busy :: "interval list" where
  "idle_then_busy = [[(''total_req'', JNum 0)], [(''total_req'', JNum 10)], [(''total_req'', JNum 20)]]"

section \<open>printer\_funcs.py\<close>

text \<open>\<open>Color\<close>: the text between an ANSI colour escape and the reset escape.\<close>

definition esc :: string where
  "esc = [CHR 0x1B]"

definition red :: "string \<Rightarrow> string" where
  "red text = esc @ ''[0;31m'' @ text @ esc @ ''[0m''"

definition green :: "string \<Rightarrow> string" where
  "green text = esc @ ''[0;32m'' @ text @ esc @ ''[0m''"

definition yellow :: "string \<Rightarrow> string" where
  "yellow text = esc @ ''[0;33m'' @ text @ esc @ ''[0m''"

definition magenta :: "string \<Rightarrow> string" where
  "magenta text = esc @ ''[0;35m'' @ text @ esc @ ''[0m''"

definition cyan :: "string \<Rightarrow> string" where
  "cyan text = esc @ ''[0;36m'' @ text @ esc @ ''[0m''"

definition white :: "string \<Rightarrow> string" where
  "white text = esc @ ''[0;37m'' @ text @ esc @ ''[0m''"

text \<open>\<open>sep.join(parts)\<close>: every part must be a \<open>str\<close>.\<close>

fun join :: "string \<Rightarrow> string list \<Rightarrow> string" where
  "join sep [] = []"
| "join sep [s] = s"
| "join sep (s # t # ss) = s @ sep @ join sep (t # ss)"

fun as_str :: "pyobj \<Rightarrow> exn + string" where
  "as_str (PStr s) = Inr s"
| "as_str v = Inl (raised TypeError [PStr ''sequence item: expected str instance''])"

definition str_join :: "string \<Rightarrow> pyobj list \<Rightarrow> exn + string" where
  "str_join sep parts = and_then (each as_str parts) (\<lambda>ss. Inr (join sep ss))"

section \<open>api\_fetcher.py\<close>

text \<open>
  The object's fields as \<open>__init__\<close> sets them. \<open>cache\<close> and \<open>uids\<close> are dicts: items
  in insertion order, stored with \<open>AList.update\<close> and looked up with \<open>map_of\<close>.
\<close>

record api_fetcher =
  addr :: string
  username :: string
  password :: string
  cache :: "(string \<times> json) list"
  uids :: "(json \<times> json) list"
  connected_flag :: "bool option"

text \<open>
  The object together with what its methods do to the world around it: the calls of
  \<open>http_get\<close> made so far (URL, user, password), the lines printed to \<open>sys.stderr\<close>, and
  the number of times \<open>self.uids\<close> has been assigned by \<open>get_uid\<close>.
\<close>

type_synonym request = "string \<times> string \<times> string"

record world = api_fetcher +
  requests :: "request list"
  stderr_lines :: "string list"
  uid_builds :: nat

text \<open>
  Modelled from the spec: \<open>http_get\<close> is defined in \<open>healthcheck.common_funcs\<close>, which is
  not among the sources. The spec has it perform an authenticated HTTPS GET and decode the
  JSON body, with network, TLS and authentication failures propagating to the caller. The
  network is a parameter: the answer to the \<open>n\<close>-th request made, an exception or a
  decoded body; it may answer the same request differently at different times.
\<close>

type_synonym network = "nat \<Rightarrow> request \<Rightarrow> exn + json"

definition http_get :: "network \<Rightarrow> string \<Rightarrow> string \<Rightarrow> string \<Rightarrow> world \<Rightarrow> (exn + json) \<times> world" where
  "http_get net url user pass w =
     (net (length (requests w)) (url, user, pass), w\<lparr>requests := requests w @ [(url, user, pass)]\<rparr>)"

definition init :: "string \<Rightarrow> string \<Rightarrow> string \<Rightarrow> world" where
  "init a u p = \<lparr>addr = a, username = u, password = p, cache = [], uids = [], connected_flag = None,
     requests = [], stderr_lines = [], uid_builds = 0\<rparr>"

definition print_msg :: "string \<Rightarrow> world \<Rightarrow> world" where
  "print_msg msg w = w\<lparr>stderr_lines := stderr_lines w @ [white msg]\<rparr>"

definition print_success :: "string \<Rightarrow> world \<Rightarrow> world" where
  "print_success msg w = w\<lparr>stderr_lines := stderr_lines w @ [green msg]\<rparr>"

text \<open>
  \<open>print_error\<close>: the message and, for an exception, one more part: its \<open>reason\<close> if that
  is a \<open>str\<close>, else \<open>reason.strerror\<close>, else its \<open>strerror\<close>, else its \<open>stderr\<close>, else
  \<open>args[0]\<close>. The parts are joined with a blank, which needs every part to be a \<open>str\<close>.
\<close>

definition error_parts :: "string \<Rightarrow> exn option \<Rightarrow> exn + pyobj list" where
  "error_parts msg ex =
     (case ex of
        None \<Rightarrow> Inr [PStr msg]
      | Some e \<Rightarrow>
          (case ex_reason e of
             Some (ReasonStr r) \<Rightarrow> Inr [PStr msg, PStr r]
           | Some (ReasonObj None) \<Rightarrow> Inl (raised AttributeError [PStr ''object has no attribute strerror''])
           | Some (ReasonObj (Some v)) \<Rightarrow> Inr [PStr msg, v]
           | None \<Rightarrow>
               (case ex_strerror e of
                  Some v \<Rightarrow> Inr [PStr msg, v]
                | None \<Rightarrow>
                    (case ex_stderr e of
                       Some v \<Rightarrow> Inr [PStr msg, v]
                     | None \<Rightarrow>
                         (case ex_args e of
                            [] \<Rightarrow> Inl (raised IndexError [PStr ''tuple index out of range''])
                          | a # _ \<Rightarrow> Inr [PStr msg, a])))))"

definition print_error :: "string \<Rightarrow> exn option \<Rightarrow> world \<Rightarrow> (exn + unit) \<times> world" where
  "print_error msg ex w =
     (case and_then (error_parts msg ex) (str_join '' '') of
        Inl e \<Rightarrow> (Inl e, w)
      | Inr line \<Rightarrow> (Inr (), w\<lparr>stderr_lines := stderr_lines w @ [red line]\<rparr>))"

text \<open>The URL that \<open>_fetch\<close> builds for a topic.\<close>

definition url_of :: "string \<Rightarrow> string \<Rightarrow> string" where
  "url_of a topic =
     (if CHR '':'' \<in> set a then ''https://'' @ a @ ''/v1/'' @ topic
      else ''https://'' @ a @ '':9443/v1/'' @ topic)"

text \<open>\<open>_fetch\<close>\<close>

definition fetch :: "network \<Rightarrow> string \<Rightarrow> world \<Rightarrow> (exn + json) \<times> world" where
  "fetch net topic w =
     (case map_of (cache w) topic of
        Some rsp \<Rightarrow> (Inr rsp, w)
      | None \<Rightarrow>
          (case http_get net (url_of (addr w) topic) (username w) (password w) w of
             (Inl e, w') \<Rightarrow> (Inl e, w')
           | (Inr rsp, w') \<Rightarrow> (Inr rsp, w'\<lparr>cache := AList.update topic rsp (cache w')\<rparr>)))"

text \<open>A method that is \<open>_fetch\<close> followed by a computation on what it returns.\<close>

definition fetch_then :: "network \<Rightarrow> string \<Rightarrow> (json \<Rightarrow> exn + 'a) \<Rightarrow> world \<Rightarrow> (exn + 'a) \<times> world" where
  "fetch_then net topic f w = (case fetch net topic w of (r, w') \<Rightarrow> (and_then r f, w'))"

text \<open>\<open>for x in v\<close>: a list gives its elements, a dict its keys, a \<open>str\<close> its characters.\<close>

fun iterate :: "json \<Rightarrow> exn + json list" where
  "iterate (JArr xs) = Inr xs"
| "iterate (JObj d) = Inr (map (\<lambda>kv. JStr (fst kv)) d)"
| "iterate (JStr s) = Inr (map (\<lambda>c. JStr [c]) s)"
| "iterate v = Inl (raised TypeError [PStr ''object is not iterable''])"

fun py_len :: "json \<Rightarrow> exn + nat" where
  "py_len (JArr xs) = Inr (length xs)"
| "py_len (JObj d) = Inr (length d)"
| "py_len (JStr s) = Inr (length s)"
| "py_len v = Inl (raised TypeError [PStr ''object has no len()''])"

text \<open>
  The value that \<open>get_with_value\<close> compares with: a scalar (\<open>None\<close>, a bool, a number or
  a \<open>str\<close>), with Python's \<open>==\<close>, under which \<open>True == 1\<close>.
\<close>

datatype scalar = SNone | SBool bool | SNum real | SStr string

fun py_eq :: "json \<Rightarrow> scalar \<Rightarrow> bool" where
  "py_eq JNull SNone = True"
| "py_eq (JBool a) (SBool b) = (a = b)"
| "py_eq (JBool a) (SNum y) = ((if a then 1 else 0) = y)"
| "py_eq (JNum x) (SBool b) = (x = (if b then 1 else 0))"
| "py_eq (JNum x) (SNum y) = (x = y)"
| "py_eq (JStr s) (SStr t) = (s = t)"
| "py_eq v c = False"

definition get :: "network \<Rightarrow> string \<Rightarrow> world \<Rightarrow> (exn + json) \<times> world" where
  "get net topic w = fetch net topic w"

text \<open>
  \<open>get_with_value\<close> returns a lazy \<open>filter\<close> object over what \<open>_fetch\<close> returned; the
  result here is the list it yields, or the exception raised while it is consumed.
\<close>

definition with_value :: "string \<Rightarrow> scalar \<Rightarrow> json \<Rightarrow> exn + json list" where
  "with_value key val rsp =
     and_then (iterate rsp) (\<lambda>xs.
     and_then (each (\<lambda>x. and_then (getitem x key) (\<lambda>v. Inr (x, py_eq v val))) xs) (\<lambda>marked.
     Inr (map fst (filter snd marked))))"

definition get_with_value :: "network \<Rightarrow> string \<Rightarrow> string \<Rightarrow> scalar \<Rightarrow> world \<Rightarrow> (exn + json list) \<times> world" where
  "get_with_value net topic key val w = fetch_then net topic (with_value key val) w"

definition get_value :: "network \<Rightarrow> string \<Rightarrow> string \<Rightarrow> world \<Rightarrow> (exn + json) \<times> world" where
  "get_value net topic key w = fetch_then net topic (\<lambda>rsp. getitem rsp key) w"

definition values_of :: "string \<Rightarrow> json \<Rightarrow> exn + json list" where
  "values_of key rsp = and_then (iterate rsp) (each (\<lambda>node. getitem node key))"

definition get_values :: "network \<Rightarrow> string \<Rightarrow> string \<Rightarrow> world \<Rightarrow> (exn + json list) \<times> world" where
  "get_values net topic key w = fetch_then net topic (values_of key) w"

definition get_number_of_values :: "network \<Rightarrow> string \<Rightarrow> world \<Rightarrow> (exn + nat) \<times> world" where
  "get_number_of_values net topic w = fetch_then net topic py_len w"

definition sum_of :: "string \<Rightarrow> json \<Rightarrow> exn + real" where
  "sum_of key rsp =
     and_then (values_of key rsp) (\<lambda>vs. and_then (each number vs) (\<lambda>xs. Inr (sum_list xs)))"

definition get_sum_of_values :: "network \<Rightarrow> string \<Rightarrow> string \<Rightarrow> world \<Rightarrow> (exn + real) \<times> world" where
  "get_sum_of_values net topic key w = fetch_then net topic (sum_of key) w"

text \<open>
  \<open>get_uid\<close>. A dict key must be hashable, and \<open>True\<close> and \<open>1\<close> are the same key. The
  comprehension \<open>{node['addr']: node['uid'] for node in ...}\<close> is the loop \<open>build_uids\<close>;
  \<open>self.uids\<close> is assigned only when it has run to its end.
\<close>

fun dict_key :: "json \<Rightarrow> exn + json" where
  "dict_key (JArr xs) = Inl (raised TypeError [PStr ''unhashable type: list''])"
| "dict_key (JObj d) = Inl (raised TypeError [PStr ''unhashable type: dict''])"
| "dict_key (JBool b) = Inr (JNum (if b then 1 else 0))"
| "dict_key v = Inr v"

fun build_uids :: "json list \<Rightarrow> (json \<times> json) list \<Rightarrow> exn + (json \<times> json) list" where
  "build_uids [] d = Inr d"
| "build_uids (node # nodes) d =
     and_then (getitem node ''addr'') (\<lambda>a.
     and_then (getitem node ''uid'') (\<lambda>u.
     and_then (dict_key a) (\<lambda>k.
     build_uids nodes (AList.update k u d))))"

definition uid_index :: "json \<Rightarrow> exn + (json \<times> json) list" where
  "uid_index rsp = and_then (iterate rsp) (\<lambda>nodes. build_uids nodes [])"

definition lookup_uid :: "string \<Rightarrow> world \<Rightarrow> exn + json" where
  "lookup_uid internal_addr w =
     (case map_of (uids w) (JStr internal_addr) of
        None \<Rightarrow> Inl (raised KeyError [PStr internal_addr])
      | Some u \<Rightarrow> Inr u)"

definition get_uid :: "network \<Rightarrow> string \<Rightarrow> world \<Rightarrow> (exn + json) \<times> world" where
  "get_uid net internal_addr w =
     (if uids w = [] then
        (case get net ''nodes'' w of
           (Inl e, w1) \<Rightarrow> (Inl e, w1)
         | (Inr rsp, w1) \<Rightarrow>
             (case uid_index rsp of
                Inl e \<Rightarrow> (Inl e, w1)
              | Inr d \<Rightarrow>
                  (let w2 = w1\<lparr>uids := d, uid_builds := uid_builds w1 + 1\<rparr>
                   in (lookup_uid internal_addr w2, w2))))
      else (lookup_uid internal_addr w, w))"

text \<open>
  \<open>check_connection\<close>. \<open>except Exception\<close> catches every exception of the model.
  \<open>fmt\<close> is Python's formatting of a decoded value inside the f-string.
\<close>

definition check_connection :: "(json \<Rightarrow> string) \<Rightarrow> network \<Rightarrow> world \<Rightarrow> (exn + unit) \<times> world" where
  "check_connection fmt net w =
     (if connected_flag w \<noteq> None then (Inr (), w)
      else
        (case get_value net ''cluster'' ''name'' (print_msg ''checking API connection ...'' w) of
           (Inr a, w1) \<Rightarrow>
             (Inr (), print_msg []
                ((print_success (''- successfully connected to '' @ fmt a) w1)\<lparr>connected_flag := Some True\<rparr>))
         | (Inl e, w1) \<Rightarrow>
             (case print_error ''could not connect to Redis Enterprise REST-API:'' (Some e) w1 of
                (Inl e', w2) \<Rightarrow> (Inl e', w2)
              | (Inr u, w2) \<Rightarrow> (Inr (), print_msg [] (w2\<lparr>connected_flag := Some False\<rparr>)))))"

text \<open>A call of one of the object's methods, and the world after a sequence of calls.\<close>

datatype call =
    Get string
  | GetWithValue string string scalar
  | GetValue string string
  | GetValues string string
  | GetNumberOfValues string
  | GetSumOfValues string string
  | GetUid string
  | CheckConnection

fun step :: "(json \<Rightarrow> string) \<Rightarrow> network \<Rightarrow> call \<Rightarrow> world \<Rightarrow> world" where
  "step fmt net (Get t) w = snd (get net t w)"
| "step fmt net (GetWithValue t k v) w = snd (get_with_value net t k v w)"
| "step fmt net (GetValue t k) w = snd (get_value net t k w)"
| "step fmt net (GetValues t k) w = snd (get_values net t k w)"
| "step fmt net (GetNumberOfValues t) w = snd (get_number_of_values net t w)"
| "step fmt net (GetSumOfValues t k) w = snd (get_sum_of_values net t k w)"
| "step fmt net (GetUid a) w = snd (get_uid net a w)"
| "step fmt net CheckConnection w = snd (check_connection fmt net w)"

definition run :: "(json \<Rightarrow> string) \<Rightarrow> network \<Rightarrow> call list \<Rightarrow> world \<Rightarrow> world" where
  "run fmt net calls w = fold (step fmt net) calls w"

text \<open>The requests made so far for one topic.\<close>

definition requests_for :: "string \<Rightarrow> world \<Rightarrow> request list" where
  "requests_for topic w = filter (\<lambda>r. fst r = url_of (addr w) topic) (requests w)"

subsection \<open>Concrete inputs\<close>

text \<open>
  A cluster that answers \<open>cluster\<close> and \<open>nodes\<close>, one whose first request times out, one
  whose node list is empty, and one that is down. \<open>timed_out\<close> is an \<open>OSError\<close> built from
  a message alone, as \<open>socket.timeout('timed out')\<close> is: it has the attribute \<open>strerror\<close>,
  with value \<open>None\<close>.
\<close>

definition timed_out :: exn where
  "timed_out = \<lparr>ex_cls = OtherError, ex_reason = None, ex_strerror = Some PNone, ex_stderr = None,
     ex_args = [PStr ''timed out'']\<rparr>"

definition node_1 :: json where
  "node_1 = JObj [(''addr'', JStr ''10.0.0.1''), (''uid'', JNum 1)]"

definition cluster_net :: network where
  "cluster_net n req =
     (if fst req = ''https://rs.example:9443/v1/cluster'' then Inr (JObj [(''name'', JStr ''rs.example'')])
      else if fst req = ''https://rs.example:9443/v1/nodes'' then Inr (JArr [node_1])
      else Inl timed_out)"

definition flaky_net :: network where
  "flaky_net n req = (if n = 0 then Inl timed_out else cluster_net n req)"

definition no_nodes_net :: network where
  "no_nodes_net n req = Inr (JArr [])"

definition down_net :: network where
  "down_net n req = Inl timed_out"

definition fresh :: world where
  "fresh = init ''rs.example'' ''admin'' ''secret''"

fun fmt_str :: "json \<Rightarrow> string" where
  "fmt_str (JStr s) = s"
| "fmt_str v = []"

subsection \<open>Invariants of a fetcher\<close>

text \<open>
  \<open>holds\<close>: the topic is cached with this resource, and the requests made for it so far
  are these. \<open>index_state\<close>: the index is unbuilt, or built once and not empty, or empty
  with a cached node list that gives an empty index.
\<close>

definition holds :: "string \<Rightarrow> json \<Rightarrow> string \<Rightarrow> request list \<Rightarrow> world \<Rightarrow> bool" where
  "holds topic rsp a rs w \<longleftrightarrow>
     addr w = a \<and> map_of (cache w) topic = Some rsp \<and> filter (\<lambda>r. fst r = url_of a topic) (requests w) = rs"

definition index_state :: "world \<Rightarrow> bool" where
  "index_state w \<longleftrightarrow>
     (uids w = [] \<and> uid_builds w = 0)
     \<or> (uids w \<noteq> [] \<and> uid_builds w = 1)
     \<or> (uids w = [] \<and> (case map_of (cache w) ''nodes'' of
                           Some rsp \<Rightarrow> uid_index rsp = Inr []
                         | None \<Rightarrow> False))"

text \<open>The fresh fetcher after one \<open>get_uid\<close>, and a fresh one whose host carries a port.\<close>

definition indexed :: world where
  "indexed = fresh\<lparr>requests := [(''https://rs.example:9443/v1/nodes'', ''admin'', ''secret'')],
            cache := [(''nodes'', JArr [node_1])], uids := [(JStr ''10.0.0.1'', JNum 1)], uid_builds := 1\<rparr>"

definition fresh_8443 :: world where
  "fresh_8443 = init ''rs.example:8443'' ''admin'' ''secret''"

definition fresh_ipv6 :: world where
  "fresh_ipv6 = init ''[::1]'' ''admin'' ''secret''"

text \<open>
  The spec's condition on the configured host, in its own words: the host string carries
  an explicit port. As in the authority of a URL, that is a colon followed by one or more
  digits at the end of the string, after a host that is a name or an IPv4 address (no
  colon in it) or an IP literal in brackets.
\<close>

definition is_digit :: "char \<Rightarrow> bool" where
  "is_digit c \<longleftrightarrow> c \<in> set ''0123456789''"

definition spec_explicit_port :: "string \<Rightarrow> bool" where
  "spec_explicit_port host_string \<longleftrightarrow>
     (let port = rev (takeWhile (\<lambda>c. c \<noteq> CHR '':'') (rev host_string));
          host = take (length host_string - length port - 1) host_string
      in CHR '':'' \<in> set host_string \<and> port \<noteq> [] \<and> list_all is_digit port
         \<and> (if CHR '':'' \<in> set host
             then host \<noteq> [] \<and> hd host = CHR ''['' \<and> last host = CHR '']''
             else True))"

section \<open>The result renderers\<close>

text \<open>
  The first element of a result tuple: \<open>True\<close> or \<open>False\<close>, \<open>None\<close>, a \<open>str\<close>, the class
  \<open>Exception\<close> itself, an int, or any other object. The renderers test it with \<open>== ''\<close>
  and with \<open>is\<close>, so the int 1 is not \<open>True\<close>.
\<close>

datatype marker = MBool bool | MNone | MStr string | MExceptionClass | MInt int | MObject

text \<open>
  A result tuple \<open>(marker, info)\<close> or \<open>(marker, info, description)\<close>: \<open>desc\<close> is the third
  element when \<open>len(_result) == 3\<close>. \<open>info\<close> is the dict in insertion order, each key and
  value by its \<open>str()\<close> text. The check function is given by its \<open>__doc__\<close>, a \<open>str\<close>.
\<close>

record outcome =
  marker :: marker
  info :: "(string \<times> string) list"
  desc :: "string option"

definition newline :: char where
  "newline = CHR 0x0A"

text \<open>\<open>_result[2] if len(_result) == 3 else _func.__doc__\<close>\<close>

definition doc_of :: "outcome \<Rightarrow> string \<Rightarrow> string" where
  "doc_of r func_doc = (case desc r of Some d \<Rightarrow> d | None \<Rightarrow> func_doc)"

text \<open>\<open>s.split('\n')[0]\<close>\<close>

definition first_line :: "string \<Rightarrow> string" where
  "first_line s = takeWhile (\<lambda>c. c \<noteq> newline) s"

text \<open>
  \<open>re.findall(r'Remedy: (.*)', doc, re.MULTILINE)\<close>: for every occurrence of
  \<open>Remedy: \<close>, from left to right, the rest of its line; the search goes on after it.
\<close>

function findall_remedy :: "string \<Rightarrow> string list" where
  "findall_remedy [] = []"
| "findall_remedy (c # cs) =
     (if prefix ''Remedy: '' (c # cs)
      then takeWhile (\<lambda>x. x \<noteq> newline) (drop 8 (c # cs))
             # findall_remedy (dropWhile (\<lambda>x. x \<noteq> newline) (drop 8 (c # cs)))
      else findall_remedy cs)"
  by pat_completeness auto
termination
  by (relation "measure length") (auto simp: less_Suc_eq_le intro: le_trans [OF length_dropWhile_le])

subsection \<open>json\_renderer.py\<close>

text \<open>
  The dict \<open>to_print\<close> that \<open>render_result\<close> hands to \<open>json.dumps\<close>, keys in insertion
  order. \<open>remedy\<close> is \<open>None\<close> or the list that \<open>findall\<close> returned; \<open>if remedy\<close> holds
  for a non-empty list. Standard output is the list of the dicts printed.
\<close>

datatype jvalue = VStr string | VInfo "(string \<times> string) list"

type_synonym to_print = "(string \<times> jvalue) list"

definition json_status :: "outcome \<Rightarrow> string \<Rightarrow> exn + string \<times> string list option" where
  "json_status r func_doc =
     (if marker r = MStr [] then Inr (''SKIPPED'', None)
      else if marker r = MBool True then Inr (''SUCCEEDED'', None)
      else if marker r = MBool False then Inr (''FAILED'', Some (findall_remedy (doc_of r func_doc)))
      else if marker r = MNone then Inr (''NO RESULT'', None)
      else if marker r = MExceptionClass then Inr (''ERROR'', None)
      else Inl (raised NotImplementedError []))"

definition json_to_print :: "outcome \<Rightarrow> string \<Rightarrow> exn + to_print" where
  "json_to_print r func_doc =
     (let to_print = [(''desc'', VStr (first_line (doc_of r func_doc)))] in
      and_then (json_status r func_doc) (\<lambda>(status, remedy).
        let to_print1 = AList.update ''status'' (VStr status) to_print;
            to_print2 = (case remedy of
                           Some (m # ms) \<Rightarrow> AList.update ''remedy'' (VStr m) to_print1
                         | _ \<Rightarrow> to_print1)
        in Inr (AList.update ''info'' (VInfo (info r)) to_print2)))"

definition json_render_result :: "outcome \<Rightarrow> string \<Rightarrow> to_print list \<Rightarrow> (exn + unit) \<times> to_print list" where
  "json_render_result r func_doc out =
     (case json_to_print r func_doc of
        Inl e \<Rightarrow> (Inl e, out)
      | Inr d \<Rightarrow> (Inr (), out @ [d]))"

subsection \<open>basic\_renderer.py\<close>

text \<open>
  The list \<open>to_print\<close> of \<open>render_result\<close>; the line printed is its elements with a blank
  between them. Standard output is the list of the lines printed.
\<close>

definition basic_status :: "outcome \<Rightarrow> string \<Rightarrow> exn + string list \<times> string list option" where
  "basic_status r func_doc =
     (let doc = first_line (doc_of r func_doc) in
      if marker r = MStr [] then Inr ([''[ ]'', doc, ''[SKIPPED]''], None)
      else if marker r = MBool True then Inr ([green ''[+]'', doc, green ''[SUCCEEDED]''], None)
      else if marker r = MBool False then
        Inr ([red ''[-]'', doc, red ''[FAILED]''], Some (findall_remedy (doc_of r func_doc)))
      else if marker r = MNone then Inr ([yellow ''[~]'', doc, yellow ''[NO RESULT]''], None)
      else if marker r = MExceptionClass then Inr ([magenta ''[*]'', doc, magenta ''[ERROR]''], None)
      else Inl (raised NotImplementedError []))"

definition basic_to_print :: "outcome \<Rightarrow> string \<Rightarrow> exn + string list" where
  "basic_to_print r func_doc =
     and_then (basic_status r func_doc) (\<lambda>(to_print, remedy).
       let to_print1 = to_print @ [join '', '' (map (\<lambda>(k, v). k @ '': '' @ v) (info r))]
       in (case remedy of
             Some (m # ms) \<Rightarrow> Inr (to_print1 @ [join '' '' [cyan ''Remedy:'', m]])
           | _ \<Rightarrow> Inr to_print1))"

definition basic_render_result :: "outcome \<Rightarrow> string \<Rightarrow> string list \<Rightarrow> (exn + unit) \<times> string list" where
  "basic_render_result r func_doc out =
     (case basic_to_print r func_doc of
        Inl e \<Rightarrow> (Inl e, out)
      | Inr parts \<Rightarrow> (Inr (), out @ [join '' '' parts]))"

subsection \<open>The status normalization of the specification\<close>

text \<open>
  The five statuses and the spec's normalization: \<open>true\<close> is Succeeded, \<open>false\<close> Failed,
  the absence of a boolean NoResult, the empty marker Skipped, the error marker Errored.
  Any other marker has no status. \<open>json_label\<close> and \<open>basic_label\<close> are the texts by
  which each renderer shows a status.
\<close>

datatype status = Succeeded | Failed | NoResult | Skipped | Errored

definition spec_status :: "marker \<Rightarrow> status option" where
  "spec_status m =
     (if m = MBool True then Some Succeeded
      else if m = MBool False then Some Failed
      else if m = MNone then Some NoResult
      else if m = MStr [] then Some Skipped
      else if m = MExceptionClass then Some Errored
      else None)"

fun json_label :: "status \<Rightarrow> string" where
  "json_label Succeeded = ''SUCCEEDED''"
| "json_label Failed = ''FAILED''"
| "json_label NoResult = ''NO RESULT''"
| "json_label Skipped = ''SKIPPED''"
| "json_label Errored = ''ERROR''"

fun basic_label :: "status \<Rightarrow> string \<times> string" where
  "basic_label Succeeded = (green ''[+]'', green ''[SUCCEEDED]'')"
| "basic_label Failed = (red ''[-]'', red ''[FAILED]'')"
| "basic_label NoResult = (yellow ''[~]'', yellow ''[NO RESULT]'')"
| "basic_label Skipped = (''[ ]'', ''[SKIPPED]'')"
| "basic_label Errored = (magenta ''[*]'', magenta ''[ERROR]'')"

text \<open>
  The documentation of \<open>check_databases_usage_001\<close> (its first line and its remedy line)
  and a failed result of it, which carries its own description.
\<close>

definition du_001_doc :: string where
  "du_001_doc = ''DU-001: Check throughput of each shard.'' @ [newline, newline]
     @ ''        Remedy: Add more shards or investigate the key distribution.'' @ [newline]"

definition du_001_failed :: outcome where
  "du_001_failed = \<lparr>marker = MBool False, info = [(''shard:1 (master)'', ''26.0/27.0/28.0/0.8 Kops'')],
     desc = Some ''DU-001: Check throughput of db1 (min/avg/max/dev).''\<rparr>"

definition move_shards_doc :: string where
  "move_shards_doc = ''check shard placement'' @ [newline] @ ''Remedy: move shards'' @ [newline]"

definition failed_plain :: outcome where
  "failed_plain = \<lparr>marker = MBool False, info = [], desc = None\<rparr>"

section \<open>Properties of the statistics\<close>

lemma each_map_Inr: "each (\<lambda>x. Inr (f x)) xs = Inr (map f xs)"
  by (induction xs) simp_all

lemma field_values_Nil: "field_values g field [] = Inr []"
  by (simp add: field_values_def)

text \<open>
  C2. When no interval record passes the filter on the field, the computation raises
  \<open>ValueError\<close> (from \<open>min\<close> of an empty list): it returns no number at all, in
  \<open>check_databases_usage_001\<close> and in \<open>check_cpu_usage\<close> alike.
\<close>

theorem empty_sample_raises:
  assumes "with_field field ints = []"
  shows "\<exists>e. min_avg_max_dev g field ints = Inl e \<and> ex_cls e = ValueError"
  using assms by (simp add: min_avg_max_dev_def field_values_Nil and_then_def raised_def)

theorem empty_sample_raises_witness:
  "with_field ''total_req'' [[(''used_memory'', JNum 5)], []] = []
   \<and> (\<exists>e. usage_001_stats [[(''used_memory'', JNum 5)], []] = Inl e \<and> ex_cls e = ValueError)
   \<and> with_field ''cpu_idle'' [] = []
   \<and> (\<exists>e. cpu_usage_stats [] = Inl e \<and> ex_cls e = ValueError)"
proof -
  have a: "with_field ''total_req'' [[(''used_memory'', JNum 5)], []] = []"
    by (simp add: with_field_def dict_get_def)
  have b: "with_field ''cpu_idle'' [] = []"
    by (simp add: with_field_def)
  show ?thesis
    using a b empty_sample_raises [OF a, of "\<lambda>x. x"] empty_sample_raises [OF b, of "\<lambda>x. 1 - x"]
    unfolding usage_001_stats_def cpu_usage_stats_def by blast
qed

lemma foldl_add_sum_list: "foldl (\<lambda>x y. x + f y) a xs = (a::real) + sum_list (map f xs)"
  by (induction xs arbitrary: a) simp_all

lemma fold_min_Min: "fold min xs (x::real) = Min (set (x # xs))"
  by (simp only: Min.set_eq_fold)

lemma fold_max_Max: "fold max xs (x::real) = Max (set (x # xs))"
  by (simp only: Max.set_eq_fold)

lemma py_min_Min: "xs \<noteq> [] \<Longrightarrow> py_min xs = Inr (Min (set xs))"
proof (cases xs)
  case Nil
  assume "xs \<noteq> []"
  with Nil show ?thesis by simp
next
  case (Cons y ys)
  then show ?thesis by (simp only: py_min.simps fold_min_Min)
qed

lemma py_max_Max: "xs \<noteq> [] \<Longrightarrow> py_max xs = Inr (Max (set xs))"
proof (cases xs)
  case Nil
  assume "xs \<noteq> []"
  with Nil show ?thesis by simp
next
  case (Cons y ys)
  then show ?thesis by (simp only: py_max.simps fold_max_Max)
qed

lemma sum_squares_nonneg: "0 \<le> (\<Sum>x\<leftarrow>xs. (x - (m::real)) ^ 2)"
  by (rule sum_list_nonneg) auto

lemma min_avg_max_dev_value:
  assumes "field_values g field (with_field field ints) = Inr xs" and "xs \<noteq> []"
  shows "min_avg_max_dev g field ints =
    Inr \<lparr>minimum = Min (set xs),
         average = sum_list xs / real (length xs),
         maximum = Max (set xs),
         std_dev = sqrt ((\<Sum>x\<leftarrow>xs. (x - sum_list xs / real (length xs)) ^ 2) / real (length xs))\<rparr>"
proof -
  let ?n = "real (length xs)"
  let ?avg = "sum_list xs / ?n"
  have n: "length xs \<noteq> 0" using assms(2) by simp
  have q: "foldl (\<lambda>x y. x + (y - ?avg) ^ 2) 0 xs = (\<Sum>x\<leftarrow>xs. (x - ?avg) ^ 2)"
    by (simp add: foldl_add_sum_list)
  have nonneg: "\<not> (\<Sum>x\<leftarrow>xs. (x - ?avg) ^ 2) / ?n < 0"
    using sum_squares_nonneg [of ?avg xs] by (simp add: divide_less_0_iff not_less)
  show ?thesis
    unfolding min_avg_max_dev_def
    by (simp only: assms(1) and_then_def sum.case py_min_Min [OF assms(2)] py_max_Max [OF assms(2)]
        py_div_def n if_False Let_def q py_sqrt_def nonneg)
qed

lemma with_field_iff:
  "i \<in> set (with_field field ints) \<longleftrightarrow> i \<in> set ints \<and> (\<exists>v. map_of i field = Some v \<and> truthy v)"
  by (auto simp: with_field_def dict_get_def split: option.splits)

text \<open>
  C3. The filter tests the truth value of \<open>i.get(field)\<close>, not the presence of the field:
  a record whose \<open>total_req\<close> is the number 0 is dropped from the sample. Of the records
  with 0, 10 and 20 only the last two are kept, so the minimum is 10 and the mean 15; and
  a shard whose only record has \<open>total_req\<close> 0 makes the check raise \<open>ValueError\<close>.
\<close>

theorem zero_valued_record_dropped:
  "with_field ''total_req'' idle_then_busy = [[(''total_req'', JNum 10)], [(''total_req'', JNum 20)]]
   \<and> (\<exists>u. usage_001_stats idle_then_busy = Inr u \<and> minimum u = 10 \<and> average u = 15)
   \<and> (\<exists>e. usage_001_stats [[(''total_req'', JNum 0)]] = Inl e \<and> ex_cls e = ValueError)"
proof -
  have kept: "with_field ''total_req'' idle_then_busy = [[(''total_req'', JNum 10)], [(''total_req'', JNum 20)]]"
    by (simp add: idle_then_busy_def with_field_def dict_get_def)
  have vals: "field_values (\<lambda>x. x) ''total_req'' (with_field ''total_req'' idle_then_busy) = Inr [10, 20]"
    by (simp add: kept field_values_def and_then_def)
  have "usage_001_stats idle_then_busy =
      Inr \<lparr>minimum = Min (set [10, 20]), average = sum_list [10, 20] / real (length [10, 20 :: real]),
           maximum = Max (set [10, 20]),
           std_dev = sqrt ((\<Sum>x\<leftarrow>[10, 20]. (x - sum_list [10, 20] / real (length [10, 20 :: real])) ^ 2)
                       / real (length [10, 20 :: real]))\<rparr>"
    unfolding usage_001_stats_def by (rule min_avg_max_dev_value [OF vals]) simp
  then have stats: "\<exists>u. usage_001_stats idle_then_busy = Inr u \<and> minimum u = 10 \<and> average u = 15"
    by simp
  have "with_field ''total_req'' [[(''total_req'', JNum 0)]] = []"
    by (simp add: with_field_def dict_get_def)
  then have "\<exists>e. usage_001_stats [[(''total_req'', JNum 0)]] = Inl e \<and> ex_cls e = ValueError"
    by (simp add: usage_001_stats_def min_avg_max_dev_def field_values_Nil and_then_def raised_def)
  with kept stats show ?thesis by blast
qed

section \<open>Properties of the renderers\<close>

lemma json_status_unknown:
  "m \<notin> {MBool True, MBool False, MNone, MStr [], MExceptionClass} \<Longrightarrow> marker r = m \<Longrightarrow>
   json_status r doc = Inl (raised NotImplementedError [])"
  by (simp add: json_status_def)

lemma basic_status_unknown:
  "m \<notin> {MBool True, MBool False, MNone, MStr [], MExceptionClass} \<Longrightarrow> marker r = m \<Longrightarrow>
   basic_status r doc = Inl (raised NotImplementedError [])"
  by (simp add: basic_status_def Let_def)

text \<open>
  C10. A result whose marker is none of \<open>True\<close>, \<open>False\<close>, \<open>None\<close>, the empty string
  and the class \<open>Exception\<close> makes \<open>render_result\<close> raise \<open>NotImplementedError\<close> in
  both renderers, and standard output is left as it was: nothing is printed for it.
\<close>

theorem unknown_marker_rejected:
  assumes "marker r \<notin> {MBool True, MBool False, MNone, MStr [], MExceptionClass}"
  shows "json_render_result r func_doc out = (Inl (raised NotImplementedError []), out)
       \<and> basic_render_result r func_doc out' = (Inl (raised NotImplementedError []), out')"
  using assms
  by (simp add: json_render_result_def json_to_print_def basic_render_result_def basic_to_print_def
      json_status_unknown [OF assms] basic_status_unknown [OF assms] and_then_def Let_def)

theorem unknown_marker_rejected_witness:
  "marker (failed_plain\<lparr>marker := MInt 1\<rparr>) \<notin> {MBool True, MBool False, MNone, MStr [], MExceptionClass}
   \<and> json_render_result (failed_plain\<lparr>marker := MInt 1\<rparr>) move_shards_doc [] = (Inl (raised NotImplementedError []), [])
   \<and> basic_render_result (failed_plain\<lparr>marker := MInt 1\<rparr>) move_shards_doc [] = (Inl (raised NotImplementedError []), [])"
proof -
  have a: "marker (failed_plain\<lparr>marker := MInt 1\<rparr>) \<notin> {MBool True, MBool False, MNone, MStr [], MExceptionClass}"
    by simp
  show ?thesis using a unknown_marker_rejected [OF a, of move_shards_doc "[]" "[]"] by blast
qed

lemma json_status_known:
  "spec_status (marker r) = Some st \<Longrightarrow> \<exists>rem. json_status r doc = Inr (json_label st, rem)"
  by (auto simp: spec_status_def json_status_def split: if_splits)

lemma basic_status_known:
  "spec_status (marker r) = Some st \<Longrightarrow>
   \<exists>rem. basic_status r doc = Inr ([fst (basic_label st), first_line (doc_of r doc), snd (basic_label st)], rem)"
  by (auto simp: spec_status_def basic_status_def Let_def split: if_splits)

lemma spec_status_None:
  "spec_status m = None \<longleftrightarrow> m \<notin> {MBool True, MBool False, MNone, MStr [], MExceptionClass}"
  by (auto simp: spec_status_def)

lemma json_to_print_status:
  assumes "json_status r doc = Inr (lab, rem)"
  shows "\<exists>d. json_to_print r doc = Inr d \<and> map_of d ''status'' = Some (VStr lab)"
  using assms
  by (auto simp: json_to_print_def and_then_def Let_def update_conv' split: option.splits list.splits)

lemma basic_to_print_status:
  assumes "basic_status r doc = Inr ([g, d, lab], rem)"
  shows "\<exists>ps. basic_to_print r doc = Inr ps \<and> ps ! 0 = g \<and> ps ! 2 = lab"
  using assms
  by (auto simp: basic_to_print_def and_then_def Let_def split: option.splits list.splits)

lemma esc_colour_neq: "green a \<noteq> red b" "green a \<noteq> yellow b" "green a \<noteq> magenta b"
  "red a \<noteq> yellow b" "red a \<noteq> magenta b" "yellow a \<noteq> magenta b"
  by (simp_all add: green_def red_def yellow_def magenta_def esc_def)

lemma json_label_inj: "json_label s = json_label t \<Longrightarrow> s = t"
  by (cases s; cases t) simp_all

lemma basic_label_inj: "basic_label s = basic_label t \<Longrightarrow> s = t"
  by (cases s; cases t) (simp_all add: green_def red_def yellow_def magenta_def esc_def)

text \<open>
  C6. Both renderers classify a marker as the spec's normalization does: where the spec
  gives a status, the JSON renderer's \<open>status\<close> entry and the basic renderer's glyph and
  label are the texts of that status (and different statuses have different texts); where
  the spec gives none, both raise \<open>NotImplementedError\<close> and print nothing.
\<close>

theorem renderers_classify_alike:
  "(case spec_status (marker r) of
      Some st \<Rightarrow>
        (\<exists>d. json_to_print r func_doc = Inr d \<and> map_of d ''status'' = Some (VStr (json_label st)))
        \<and> (\<exists>ps. basic_to_print r func_doc = Inr ps \<and> (ps ! 0, ps ! 2) = basic_label st)
    | None \<Rightarrow>
        json_render_result r func_doc out = (Inl (raised NotImplementedError []), out)
        \<and> basic_render_result r func_doc out' = (Inl (raised NotImplementedError []), out'))
   \<and> inj json_label \<and> inj basic_label"
proof -
  have labels: "inj json_label \<and> inj basic_label"
    by (auto intro!: injI dest: json_label_inj basic_label_inj)
  show ?thesis
  proof (cases "spec_status (marker r)")
    case None
    then have m: "marker r \<notin> {MBool True, MBool False, MNone, MStr [], MExceptionClass}"
      using spec_status_None [of "marker r"] by blast
    have "json_render_result r func_doc out = (Inl (raised NotImplementedError []), out)
        \<and> basic_render_result r func_doc out' = (Inl (raised NotImplementedError []), out')"
      by (simp add: json_render_result_def json_to_print_def basic_render_result_def basic_to_print_def
          json_status_unknown [OF m] basic_status_unknown [OF m] and_then_def Let_def)
    with None labels show ?thesis by simp
  next
    case (Some st)
    from json_status_known [OF Some] obtain rem where "json_status r func_doc = Inr (json_label st, rem)"
      by blast
    then have j: "\<exists>d. json_to_print r func_doc = Inr d \<and> map_of d ''status'' = Some (VStr (json_label st))"
      by (rule json_to_print_status)
    from basic_status_known [OF Some] obtain rem' where
      "basic_status r func_doc = Inr ([fst (basic_label st), first_line (doc_of r func_doc), snd (basic_label st)], rem')"
      by blast
    then have "\<exists>ps. basic_to_print r func_doc = Inr ps \<and> ps ! 0 = fst (basic_label st) \<and> ps ! 2 = snd (basic_label st)"
      by (rule basic_to_print_status)
    then have b: "\<exists>ps. basic_to_print r func_doc = Inr ps \<and> (ps ! 0, ps ! 2) = basic_label st"
      by (metis prod.collapse)
    from Some j b labels show ?thesis by simp
  qed
qed

lemma findall_du_001: "findall_remedy du_001_doc = [''Add more shards or investigate the key distribution.'']"
  by (simp add: du_001_doc_def newline_def)

lemma findall_du_001_desc: "findall_remedy ''DU-001: Check throughput of db1 (min/avg/max/dev).'' = []"
  by simp

lemma findall_move: "findall_remedy move_shards_doc = [''move shards'']"
  by (simp add: move_shards_doc_def newline_def)

text \<open>
  C5. For a failed result that carries its own description (a tuple of three), the text
  scanned for the remedy is that description, not the documentation of the check:
  \<open>check_databases_usage_001\<close> documents a remedy, yet its failed results are rendered
  without one by both renderers. For a failed result of two elements the documentation
  is scanned, and \<open>Remedy: move shards\<close> gives the remedy \<open>move shards\<close>.
\<close>

theorem remedy_scans_description:
  "findall_remedy du_001_doc = [''Add more shards or investigate the key distribution.'']
   \<and> (\<exists>d. json_to_print du_001_failed du_001_doc = Inr d
          \<and> map_of d ''status'' = Some (VStr ''FAILED'') \<and> map_of d ''remedy'' = None)
   \<and> (\<exists>ps. basic_to_print du_001_failed du_001_doc = Inr ps \<and> length ps = 4)
   \<and> (\<exists>d. json_to_print failed_plain move_shards_doc = Inr d
          \<and> map_of d ''remedy'' = Some (VStr ''move shards''))"
proof -
  have a: "\<exists>d. json_to_print du_001_failed du_001_doc = Inr d
          \<and> map_of d ''status'' = Some (VStr ''FAILED'') \<and> map_of d ''remedy'' = None"
    by (simp add: json_to_print_def json_status_def du_001_failed_def doc_of_def and_then_def Let_def)
  have b: "\<exists>ps. basic_to_print du_001_failed du_001_doc = Inr ps \<and> length ps = 4"
    by (simp add: basic_to_print_def basic_status_def du_001_failed_def doc_of_def and_then_def Let_def)
  have c: "\<exists>d. json_to_print failed_plain move_shards_doc = Inr d
          \<and> map_of d ''remedy'' = Some (VStr ''move shards'')"
    by (simp add: json_to_print_def json_status_def failed_plain_def doc_of_def and_then_def Let_def findall_move)
  from findall_du_001 a b c show ?thesis by blast
qed

lemma remedy_attached_iff:
  "json_to_print r func_doc = Inr d \<Longrightarrow>
   map_of d ''remedy'' =
     (if marker r = MBool False \<and> findall_remedy (doc_of r func_doc) \<noteq> []
      then Some (VStr (hd (findall_remedy (doc_of r func_doc)))) else None)"
  by (auto simp: json_to_print_def json_status_def and_then_def Let_def update_conv'
      split: if_splits list.splits)

section \<open>Properties of the API fetcher\<close>

lemma url_of_inj: "url_of a t = url_of a t' \<Longrightarrow> t = t'"
  by (simp add: url_of_def split: if_splits)

lemma fetch_hit: "map_of (cache w) topic = Some rsp \<Longrightarrow> fetch net topic w = (Inr rsp, w)"
  by (simp add: fetch_def)

lemma fetch_miss:
  "map_of (cache w) topic = None \<Longrightarrow>
   fetch net topic w =
     (case net (length (requests w)) (url_of (addr w) topic, username w, password w) of
        Inl e \<Rightarrow> (Inl e, w\<lparr>requests := requests w @ [(url_of (addr w) topic, username w, password w)]\<rparr>)
      | Inr rsp \<Rightarrow> (Inr rsp, w\<lparr>requests := requests w @ [(url_of (addr w) topic, username w, password w)],
                               cache := AList.update topic rsp (cache w)\<rparr>))"
  by (simp add: fetch_def http_get_def split: sum.splits)

lemma fetch_holds:
  assumes "holds topic rsp a rs w"
  shows "holds topic rsp a rs (snd (fetch net t w))"
proof (cases "map_of (cache w) t")
  case (Some r)
  then show ?thesis using assms by (simp add: fetch_hit)
next
  case None
  with assms have neq: "t \<noteq> topic" by (auto simp: holds_def)
  then have u: "url_of a t \<noteq> url_of a topic" using url_of_inj by blast
  show ?thesis using assms None neq u
    by (auto simp: fetch_miss holds_def update_conv' split: sum.splits)
qed

lemma fetch_then_snd: "snd (fetch_then net t f w) = snd (fetch net t w)"
  by (simp add: fetch_then_def split: prod.splits)

lemma fetch_then_hit:
  "map_of (cache w) topic = Some rsp \<Longrightarrow> fetch_then net topic f w = (f rsp, w)"
  by (simp add: fetch_then_def fetch_hit and_then_def)

lemma holds_print_msg [simp]: "holds topic rsp a rs (print_msg m w) = holds topic rsp a rs w"
  by (simp add: holds_def print_msg_def)

lemma holds_print_success [simp]: "holds topic rsp a rs (print_success m w) = holds topic rsp a rs w"
  by (simp add: holds_def print_success_def)

lemma holds_print_error: "holds topic rsp a rs w \<Longrightarrow> holds topic rsp a rs (snd (print_error m ex w))"
  by (simp add: holds_def print_error_def split: sum.splits)

lemma holds_flag [simp]: "holds topic rsp a rs (w\<lparr>connected_flag := f\<rparr>) = holds topic rsp a rs w"
  by (simp add: holds_def)

lemma holds_uids [simp]: "holds topic rsp a rs (w\<lparr>uids := d, uid_builds := n\<rparr>) = holds topic rsp a rs w"
  by (simp add: holds_def)

lemma get_uid_holds:
  assumes "holds topic rsp a rs w"
  shows "holds topic rsp a rs (snd (get_uid net x w))"
proof -
  have "holds topic rsp a rs (snd (fetch net ''nodes'' w))" using assms by (rule fetch_holds)
  then show ?thesis using assms
    by (auto simp: get_uid_def get_def Let_def split: prod.splits sum.splits)
qed

lemma check_connection_holds:
  assumes "holds topic rsp a rs w"
  shows "holds topic rsp a rs (snd (check_connection fmt net w))"
proof -
  let ?w0 = "print_msg ''checking API connection ...'' w"
  have "holds topic rsp a rs ?w0" using assms by simp
  then have "holds topic rsp a rs (snd (fetch net ''cluster'' ?w0))" by (rule fetch_holds)
  then have g: "holds topic rsp a rs (snd (get_value net ''cluster'' ''name'' ?w0))"
    by (simp add: get_value_def fetch_then_snd)
  show ?thesis
  proof (cases "connected_flag w")
    case (Some b)
    then show ?thesis using assms by (simp add: check_connection_def)
  next
    case None
    obtain r w1 where gv: "get_value net ''cluster'' ''name'' ?w0 = (r, w1)" by (cases "get_value net ''cluster'' ''name'' ?w0")
    with g have h1: "holds topic rsp a rs w1" by simp
    show ?thesis
    proof (cases r)
      case (Inr v)
      then show ?thesis using None gv h1 by (simp add: check_connection_def)
    next
      case (Inl e)
      from holds_print_error [OF h1, of "''could not connect to Redis Enterprise REST-API:''" "Some e"]
      show ?thesis using None gv Inl
        by (auto simp: check_connection_def split: prod.splits sum.splits)
    qed
  qed
qed

lemma step_holds:
  assumes "holds topic rsp a rs w"
  shows "holds topic rsp a rs (step fmt net c w)"
proof (cases c)
  case (GetUid x)
  then show ?thesis using get_uid_holds [OF assms] by simp
next
  case CheckConnection
  then show ?thesis using check_connection_holds [OF assms] by simp
qed (simp_all add: get_def get_with_value_def get_value_def get_values_def get_number_of_values_def
       get_sum_of_values_def fetch_then_snd fetch_holds [OF assms])

lemma run_holds:
  "holds topic rsp a rs w \<Longrightarrow> holds topic rsp a rs (run fmt net calls w)"
  unfolding run_def by (induction calls arbitrary: w) (simp_all add: step_holds)

lemma fetch_stores:
  assumes "fst (fetch net topic w) = Inr rsp"
  shows "map_of (cache (snd (fetch net topic w))) topic = Some rsp \<and> addr (snd (fetch net topic w)) = addr w"
proof (cases "map_of (cache w) topic")
  case (Some r)
  then show ?thesis using assms by (simp add: fetch_hit)
next
  case None
  then show ?thesis using assms by (auto simp: fetch_miss update_conv' split: sum.splits)
qed

text \<open>
  C1 (as amended). Once \<open>_fetch\<close> has returned a resource for a topic, from the cache or
  from a GET that succeeded, then after any further sequence of calls on the object the
  topic is still cached with that resource, no further request has been made for it, and
  each of \<open>get\<close>, \<open>get_value\<close>, \<open>get_values\<close>, \<open>get_with_value\<close>,
  \<open>get_number_of_values\<close> and \<open>get_sum_of_values\<close> on the topic returns its computation
  on that resource and leaves the object and the request log as they are. The fetch itself
  makes at most one request.
\<close>

theorem served_from_cache:
  assumes "fst (fetch net topic w) = Inr rsp"
    and "w2 = run fmt net calls (snd (fetch net topic w))"
  shows "(requests (snd (fetch net topic w)) = requests w
          \<or> requests (snd (fetch net topic w)) = requests w @ [(url_of (addr w) topic, username w, password w)])
       \<and> map_of (cache w2) topic = Some rsp
       \<and> requests_for topic w2 = requests_for topic (snd (fetch net topic w))
       \<and> get net topic w2 = (Inr rsp, w2)
       \<and> get_value net topic key w2 = (getitem rsp key, w2)
       \<and> get_values net topic key w2 = (values_of key rsp, w2)
       \<and> get_with_value net topic key val w2 = (with_value key val rsp, w2)
       \<and> get_number_of_values net topic w2 = (py_len rsp, w2)
       \<and> get_sum_of_values net topic key w2 = (sum_of key rsp, w2)"
proof -
  let ?w1 = "snd (fetch net topic w)"
  from fetch_stores [OF assms(1)]
  have "holds topic rsp (addr ?w1) (filter (\<lambda>r. fst r = url_of (addr ?w1) topic) (requests ?w1)) ?w1"
    by (simp add: holds_def)
  then have h: "holds topic rsp (addr ?w1) (filter (\<lambda>r. fst r = url_of (addr ?w1) topic) (requests ?w1)) w2"
    unfolding assms(2) by (rule run_holds)
  then have c: "map_of (cache w2) topic = Some rsp" by (simp add: holds_def)
  from h have r: "requests_for topic w2 = requests_for topic ?w1"
    by (simp add: holds_def requests_for_def)
  have q: "requests ?w1 = requests w
          \<or> requests ?w1 = requests w @ [(url_of (addr w) topic, username w, password w)]"
    by (cases "map_of (cache w) topic") (auto simp: fetch_hit fetch_miss split: sum.splits)
  from q c r show ?thesis
    by (simp add: get_def get_value_def get_values_def get_with_value_def get_number_of_values_def
        get_sum_of_values_def fetch_hit fetch_then_hit)
qed

lemma fetch_index_fields:
  "uids (snd (fetch net t w)) = uids w \<and> uid_builds (snd (fetch net t w)) = uid_builds w
   \<and> connected_flag (snd (fetch net t w)) = connected_flag w"
  by (cases "map_of (cache w) t") (auto simp: fetch_hit fetch_miss split: sum.splits)

lemma fetch_keeps_nodes:
  "map_of (cache w) topic = Some rsp \<Longrightarrow> map_of (cache (snd (fetch net t w))) topic = Some rsp"
  using fetch_holds [of topic rsp "addr w" "filter (\<lambda>r. fst r = url_of (addr w) topic) (requests w)" w net t]
  by (simp add: holds_def)

lemma fetch_index_state: "index_state w \<Longrightarrow> index_state (snd (fetch net t w))"
  unfolding index_state_def
  by (auto simp: fetch_index_fields dest: fetch_keeps_nodes [of w "''nodes''" _ net t] split: option.splits)

lemma index_state_print_msg [simp]: "index_state (print_msg m w) = index_state w"
  by (simp add: index_state_def print_msg_def)

lemma index_state_print_success [simp]: "index_state (print_success m w) = index_state w"
  by (simp add: index_state_def print_success_def)

lemma index_state_flag [simp]: "index_state (w\<lparr>connected_flag := f\<rparr>) = index_state w"
  by (simp add: index_state_def)

lemma index_state_print_error: "index_state w \<Longrightarrow> index_state (snd (print_error m ex w))"
  by (simp add: index_state_def print_error_def split: sum.splits)

lemma check_connection_index_state:
  assumes "index_state w"
  shows "index_state (snd (check_connection fmt net w))"
proof -
  let ?w0 = "print_msg ''checking API connection ...'' w"
  have "index_state (snd (fetch net ''cluster'' ?w0))" using assms by (simp add: fetch_index_state)
  then have g: "index_state (snd (get_value net ''cluster'' ''name'' ?w0))"
    by (simp add: get_value_def fetch_then_snd)
  obtain r w1 where gv: "get_value net ''cluster'' ''name'' ?w0 = (r, w1)"
    by (cases "get_value net ''cluster'' ''name'' ?w0")
  with g have h1: "index_state w1" by simp
  show ?thesis
  proof (cases "connected_flag w")
    case (Some b)
    then show ?thesis using assms by (simp add: check_connection_def)
  next
    case None
    show ?thesis
    proof (cases r)
      case (Inr v)
      then show ?thesis using None gv h1 by (simp add: check_connection_def)
    next
      case (Inl e)
      from index_state_print_error [OF h1, of "''could not connect to Redis Enterprise REST-API:''" "Some e"]
      show ?thesis using None gv Inl
        by (auto simp: check_connection_def split: prod.splits sum.splits)
    qed
  qed
qed

lemma get_uid_index_state:
  assumes "index_state w"
  shows "index_state (snd (get_uid net x w))"
proof (cases "uids w = []")
  case False
  then show ?thesis using assms by (simp add: get_uid_def)
next
  case True
  obtain r w1 where f: "fetch net ''nodes'' w = (r, w1)" by (cases "fetch net ''nodes'' w")
  have i1: "index_state w1" using fetch_index_state [OF assms, of net "''nodes''"] f by simp
  have u1: "uids w1 = []" using fetch_index_fields [of net "''nodes''" w] f True by simp
  show ?thesis
  proof (cases r)
    case (Inl e)
    then show ?thesis using True f i1 by (simp add: get_uid_def get_def)
  next
    case (Inr rsp)
    then have c1: "map_of (cache w1) ''nodes'' = Some rsp"
      using fetch_stores [of net "''nodes''" w rsp] f by simp
    show ?thesis
    proof (cases "uid_index rsp")
      case (Inl e)
      then show ?thesis using True f i1 Inr by (simp add: get_uid_def get_def)
    next
      case d: (Inr d)
      have "index_state (w1\<lparr>uids := d, uid_builds := uid_builds w1 + 1\<rparr>)"
      proof (cases "d = []")
        case True
        then show ?thesis using c1 d by (simp add: index_state_def)
      next
        case False
        then have "uid_builds w1 = 0" using i1 u1 c1 d by (auto simp: index_state_def)
        then show ?thesis using False by (simp add: index_state_def)
      qed
      then show ?thesis using True f Inr d by (simp add: get_uid_def get_def Let_def)
    qed
  qed
qed

lemma step_index_state: "index_state w \<Longrightarrow> index_state (step fmt net c w)"
  by (cases c)
     (simp_all add: get_def get_with_value_def get_value_def get_values_def get_number_of_values_def
       get_sum_of_values_def fetch_then_snd fetch_index_state get_uid_index_state
       check_connection_index_state)

lemma run_index_state: "index_state w \<Longrightarrow> index_state (run fmt net calls w)"
  unfolding run_def by (induction calls arbitrary: w) (simp_all add: step_index_state)

lemma init_index_state: "index_state (init a u p)"
  by (simp add: index_state_def init_def)

text \<open>
  C7 (as amended). A call of \<open>get_uid\<close> on an object whose index is not empty returns the
  lookup in that index and changes nothing: no fetch, no rebuilding. And after any sequence
  of calls on a new object, the index has been assigned at most once, unless it is empty.
\<close>

theorem index_built_once:
  "(uids w \<noteq> [] \<longrightarrow> get_uid net x w = (lookup_uid x w, w))
   \<and> (uid_builds (run fmt net calls (init a u p)) \<le> 1 \<or> uids (run fmt net calls (init a u p)) = [])"
proof -
  have "index_state (run fmt net calls (init a u p))"
    by (rule run_index_state [OF init_index_state])
  then have "uid_builds (run fmt net calls (init a u p)) \<le> 1 \<or> uids (run fmt net calls (init a u p)) = []"
    by (auto simp: index_state_def)
  then show ?thesis by (simp add: get_uid_def)
qed

lemma fetch_nodes_fresh:
  "fetch cluster_net ''nodes'' fresh =
     (Inr (JArr [node_1]),
      fresh\<lparr>requests := [(''https://rs.example:9443/v1/nodes'', ''admin'', ''secret'')],
            cache := [(''nodes'', JArr [node_1])]\<rparr>)"
  by (simp add: fetch_def http_get_def cluster_net_def url_of_def fresh_def init_def)

lemma uid_index_node_1: "uid_index (JArr [node_1]) = Inr [(JStr ''10.0.0.1'', JNum 1)]"
  by (simp add: uid_index_def node_1_def and_then_def)

lemma get_uid_fresh:
  "get_uid cluster_net ''10.0.0.1'' fresh = (Inr (JNum 1), indexed)"
  by (simp add: get_uid_def get_def fetch_nodes_fresh uid_index_node_1 lookup_uid_def Let_def indexed_def)
     (simp add: fresh_def init_def)

theorem index_built_once_witness:
  "uids indexed \<noteq> []
   \<and> run fmt_str cluster_net [GetUid ''10.0.0.1''] fresh = indexed
   \<and> get_uid cluster_net ''10.0.0.1'' indexed = (Inr (JNum 1), indexed)
   \<and> uid_builds (run fmt_str cluster_net [GetUid ''10.0.0.1'', GetUid ''10.0.0.1''] fresh) = 1"
proof -
  have a: "uids indexed \<noteq> []" by (simp add: indexed_def)
  have l: "lookup_uid ''10.0.0.1'' indexed = Inr (JNum 1)" by (simp add: lookup_uid_def indexed_def)
  have g: "get_uid cluster_net ''10.0.0.1'' indexed = (Inr (JNum 1), indexed)"
    using index_built_once [of indexed cluster_net "''10.0.0.1''" fmt_str "[]" "''rs.example''" "''admin''" "''secret''"] a l
    by simp
  have r1: "run fmt_str cluster_net [GetUid ''10.0.0.1''] fresh = indexed"
    by (simp add: run_def get_uid_fresh)
  have r2: "run fmt_str cluster_net [GetUid ''10.0.0.1'', GetUid ''10.0.0.1''] fresh = indexed"
    by (simp add: run_def get_uid_fresh g)
  from a g r1 r2 show ?thesis by (simp add: indexed_def)
qed

lemma fetch_no_nodes:
  "map_of (cache w) ''nodes'' = None \<Longrightarrow>
   fetch no_nodes_net ''nodes'' w =
     (Inr (JArr []), w\<lparr>requests := requests w @ [(url_of (addr w) ''nodes'', username w, password w)],
                      cache := AList.update ''nodes'' (JArr []) (cache w)\<rparr>)"
  by (simp add: fetch_miss no_nodes_net_def)

text \<open>
  The claim C7 as stated fails when the node list is empty: the guard \<open>not self.uids\<close>
  takes the empty index for an unbuilt one, and each call assigns it again.
\<close>

theorem empty_index_rebuilt:
  "uid_builds (run fmt_str no_nodes_net [GetUid ''10.0.0.1'', GetUid ''10.0.0.1''] fresh) = 2"
  by (simp add: run_def get_uid_def get_def fetch_def http_get_def no_nodes_net_def uid_index_def and_then_def
      Let_def fresh_def init_def)

theorem served_from_cache_witness:
  "fst (fetch cluster_net ''nodes'' fresh) = Inr (JArr [node_1])
   \<and> indexed = run fmt_str cluster_net [GetUid ''10.0.0.1''] (snd (fetch cluster_net ''nodes'' fresh))
   \<and> requests_for ''nodes'' indexed = [(''https://rs.example:9443/v1/nodes'', ''admin'', ''secret'')]
   \<and> get cluster_net ''nodes'' indexed = (Inr (JArr [node_1]), indexed)
   \<and> get_values cluster_net ''nodes'' ''uid'' indexed = (Inr [JNum 1], indexed)
   \<and> get_number_of_values cluster_net ''nodes'' indexed = (Inr 1, indexed)"
proof -
  have a: "fst (fetch cluster_net ''nodes'' fresh) = Inr (JArr [node_1])"
    by (simp add: fetch_nodes_fresh)
  have b: "indexed = run fmt_str cluster_net [GetUid ''10.0.0.1''] (snd (fetch cluster_net ''nodes'' fresh))"
    by (simp add: run_def fetch_nodes_fresh)
       (simp add: get_uid_def get_def fetch_def uid_index_node_1 lookup_uid_def
        Let_def indexed_def fresh_def init_def)
  have c: "requests_for ''nodes'' (snd (fetch cluster_net ''nodes'' fresh))
         = [(''https://rs.example:9443/v1/nodes'', ''admin'', ''secret'')]"
    by (simp add: fetch_nodes_fresh) (simp add: requests_for_def url_of_def fresh_def init_def)
  have d: "values_of ''uid'' (JArr [node_1]) = Inr [JNum 1]"
    by (simp add: values_of_def and_then_def node_1_def)
  from served_from_cache [OF a b, of "''uid''" SNone] a b c d show ?thesis by simp
qed

text \<open>
  The claim C1 as stated fails when a GET raises: nothing is cached, and the next call
  for the topic makes a second request.
\<close>

theorem failed_fetch_repeated:
  "length (requests_for ''nodes'' (run fmt_str flaky_net [Get ''nodes'', Get ''nodes''] fresh)) = 2"
  by (simp add: run_def get_def fetch_def http_get_def flaky_net_def cluster_net_def url_of_def
      requests_for_def fresh_def init_def)

text \<open>
  C8 (as amended). On a cache miss \<open>_fetch\<close> makes exactly one request, with the
  configured user and password, to \<open>https://{host}/v1/{topic}\<close> when the host string
  contains a colon, which it does whenever it carries an explicit port, and to
  \<open>https://{host}:9443/v1/{topic}\<close> when it contains no colon; it returns what the
  request returns, and every decoded body returned is stored in the cache under the topic,
  whatever it is.
\<close>

theorem fetch_on_miss:
  assumes "map_of (cache w) topic = None"
  shows "requests (snd (fetch net topic w)) =
           requests w @ [(if CHR '':'' \<in> set (addr w) then ''https://'' @ addr w @ ''/v1/'' @ topic
                          else ''https://'' @ addr w @ '':9443/v1/'' @ topic, username w, password w)]
       \<and> (spec_explicit_port (addr w) \<longrightarrow>
            requests (snd (fetch net topic w)) =
              requests w @ [(''https://'' @ addr w @ ''/v1/'' @ topic, username w, password w)])
       \<and> (\<forall>rsp. fst (fetch net topic w) = Inr rsp \<longrightarrow> map_of (cache (snd (fetch net topic w))) topic = Some rsp)
       \<and> fst (fetch net topic w) =
           net (length (requests w))
             (if CHR '':'' \<in> set (addr w) then ''https://'' @ addr w @ ''/v1/'' @ topic
              else ''https://'' @ addr w @ '':9443/v1/'' @ topic, username w, password w)"
proof -
  have "spec_explicit_port (addr w) \<longrightarrow> CHR '':'' \<in> set (addr w)"
    by (simp add: spec_explicit_port_def Let_def)
  then show ?thesis
    using assms by (auto simp: fetch_miss url_of_def update_conv' split: sum.splits)
qed

text \<open>
  The claim C8 as stated fails for a host string that contains a colon and carries no
  port: for the IPv6 literal \<open>[::1]\<close> the default port is not appended.
\<close>

theorem colon_without_port:
  "\<not> spec_explicit_port (addr fresh_ipv6)
   \<and> requests (snd (fetch no_nodes_net ''nodes'' fresh_ipv6)) = [(''https://[::1]/v1/nodes'', ''admin'', ''secret'')]"
  by (simp add: spec_explicit_port_def Let_def is_digit_def fetch_def http_get_def url_of_def
      no_nodes_net_def fresh_ipv6_def init_def)

theorem fetch_on_miss_witness:
  "map_of (cache fresh) ''nodes'' = None
   \<and> requests (snd (fetch cluster_net ''nodes'' fresh)) = [(''https://rs.example:9443/v1/nodes'', ''admin'', ''secret'')]
   \<and> map_of (cache (snd (fetch cluster_net ''nodes'' fresh))) ''nodes'' = Some (JArr [node_1])
   \<and> map_of (cache fresh_8443) ''bdbs'' = None
   \<and> spec_explicit_port (addr fresh_8443)
   \<and> requests (snd (fetch no_nodes_net ''bdbs'' fresh_8443)) = [(''https://rs.example:8443/v1/bdbs'', ''admin'', ''secret'')]
   \<and> map_of (cache (snd (fetch no_nodes_net ''bdbs'' fresh_8443))) ''bdbs'' = Some (JArr [])"
proof -
  have a: "map_of (cache fresh) ''nodes'' = None" by (simp add: fresh_def init_def)
  have b: "map_of (cache fresh_8443) ''bdbs'' = None" by (simp add: fresh_8443_def init_def)
  have p: "spec_explicit_port (addr fresh_8443)"
    by (simp add: spec_explicit_port_def Let_def is_digit_def fresh_8443_def init_def)
  have fa: "fst (fetch cluster_net ''nodes'' fresh) = Inr (JArr [node_1])"
    using fetch_on_miss [OF a, of cluster_net] by (simp add: cluster_net_def fresh_def init_def)
  have fb: "fst (fetch no_nodes_net ''bdbs'' fresh_8443) = Inr (JArr [])"
    using fetch_on_miss [OF b, of no_nodes_net] by (simp add: no_nodes_net_def)
  have ra: "requests (snd (fetch cluster_net ''nodes'' fresh)) = [(''https://rs.example:9443/v1/nodes'', ''admin'', ''secret'')]"
    using fetch_on_miss [OF a, of cluster_net] by (simp add: fresh_def init_def)
  have rb: "requests (snd (fetch no_nodes_net ''bdbs'' fresh_8443)) = [(''https://rs.example:8443/v1/bdbs'', ''admin'', ''secret'')]"
    using fetch_on_miss [OF b, of no_nodes_net] p by (simp add: fresh_8443_def init_def)
  from fetch_on_miss [OF a, of cluster_net] fa
  have ca: "map_of (cache (snd (fetch cluster_net ''nodes'' fresh))) ''nodes'' = Some (JArr [node_1])" by blast
  from fetch_on_miss [OF b, of no_nodes_net] fb
  have cb: "map_of (cache (snd (fetch no_nodes_net ''bdbs'' fresh_8443))) ''bdbs'' = Some (JArr [])" by blast
  from a b p ra rb ca cb show ?thesis by blast
qed

lemma check_connection_memo:
  "connected_flag w \<noteq> None \<Longrightarrow> check_connection fmt net w = (Inr (), w)"
  by (simp add: check_connection_def)

lemma print_error_timed_out:
  "print_error m (Some timed_out) w = (Inl (raised TypeError [PStr ''sequence item: expected str instance'']), w)"
  by (simp add: print_error_def error_parts_def timed_out_def str_join_def and_then_def)

lemma check_connection_down:
  "connected_flag w = None \<Longrightarrow> map_of (cache w) ''cluster'' = None \<Longrightarrow>
   check_connection fmt down_net w =
     (Inl (raised TypeError [PStr ''sequence item: expected str instance'']),
      w\<lparr>requests := requests w @ [(url_of (addr w) ''cluster'', username w, password w)],
        stderr_lines := stderr_lines w @ [white ''checking API connection ...'']\<rparr>)"
  by (simp add: check_connection_def get_value_def fetch_then_def fetch_miss print_msg_def down_net_def
      and_then_def print_error_timed_out)

text \<open>
  C9. When the read of the cluster name fails with an exception whose \<open>strerror\<close> is
  \<open>None\<close> (a timeout), \<open>print_error\<close> raises \<open>TypeError\<close> inside the handler:
  \<open>check_connection\<close> propagates it and leaves the flag unset, so the next call reads
  from the network again.
\<close>

theorem check_connection_propagates:
  "fst (check_connection fmt_str down_net fresh) = Inl (raised TypeError [PStr ''sequence item: expected str instance''])
   \<and> connected_flag (snd (check_connection fmt_str down_net fresh)) = None
   \<and> length (requests (run fmt_str down_net [CheckConnection, CheckConnection] fresh)) = 2"
proof -
  have f: "connected_flag fresh = None" "map_of (cache fresh) ''cluster'' = None"
    by (simp_all add: fresh_def init_def)
  note c1 = check_connection_down [OF f, of fmt_str]
  let ?w1 = "snd (check_connection fmt_str down_net fresh)"
  have g: "connected_flag ?w1 = None" "map_of (cache ?w1) ''cluster'' = None"
    by (simp_all add: c1 f)
  note c2 = check_connection_down [OF g, of fmt_str]
  have r1: "length (requests ?w1) = 1"
    by (simp add: c1) (simp add: fresh_def init_def)
  have "run fmt_str down_net [CheckConnection, CheckConnection] fresh = snd (check_connection fmt_str down_net ?w1)"
    by (simp add: run_def)
  then have "length (requests (run fmt_str down_net [CheckConnection, CheckConnection] fresh)) = 2"
    using r1 by (simp add: c2)
  with c1 f show ?thesis by simp
qed

lemma check_connection_first:
  assumes "connected_flag w = None"
    and "get_value net ''cluster'' ''name'' (print_msg ''checking API connection ...'' w) = (r, w1)"
  shows "(\<forall>a. r = Inr a \<longrightarrow> fst (check_connection fmt net w) = Inr ()
            \<and> connected_flag (snd (check_connection fmt net w)) = Some True)
       \<and> (\<forall>e line. r = Inl e \<longrightarrow> and_then (error_parts ''could not connect to Redis Enterprise REST-API:'' (Some e)) (str_join '' '') = Inr line
            \<longrightarrow> fst (check_connection fmt net w) = Inr ()
              \<and> connected_flag (snd (check_connection fmt net w)) = Some False)"
  using assms
  by (auto simp: check_connection_def print_error_def print_msg_def print_success_def)

end
